theory Spec2Isabelle
  imports
    Complex_Main
    "HOL-Library.Word"
    "HOL-Library.Char_ord"
    "HOL-Library.List_Lexorder"
    "HOL-Library.AList"
    "HOL-Library.Multiset"
begin

unbundle bit_operations_syntax

section \<open>Python values used by the diagnosis engine\<close>

text \<open>
  The development embeds \<^verbatim>\<open>engine.py\<close> (the scorer \<^verbatim>\<open>ResultadoDiagnostico\<close> and the
  engine \<^verbatim>\<open>DiagnosticoEngine\<close>), the catalogue record \<^verbatim>\<open>Doenca\<close> of \<^verbatim>\<open>models.py\<close>,
  the limits of \<^verbatim>\<open>config.py\<close> and the bounded cache of \<^verbatim>\<open>data_manager.py\<close>.

  Conventions.
  \<^item> A Python \<^verbatim>\<open>str\<close> is a \<^typ>\<open>string\<close> holding its UTF-8 bytes. Python compares
    strings by code point, which is the bytewise lexicographic order of the UTF-8 forms, so
    \<^verbatim>\<open>sorted\<close> is \<^const>\<open>sort\<close> on \<^typ>\<open>string\<close> and \<^verbatim>\<open>str.encode()\<close> reads the bytes off.
  \<^item> A Python \<^verbatim>\<open>float\<close> is idealised as an exact rational (\<^typ>\<open>rat\<close>): sums, the
    quotient and \<^verbatim>\<open>round\<close> are computed without binary rounding error.
  \<^item> A Python \<^verbatim>\<open>dict\<close> is an association list in insertion order with distinct keys:
    assignment is \<^const>\<open>AList.update\<close> (an existing key keeps its position, a new key goes
    last), lookup is \<^const>\<open>map_of\<close>, \<^verbatim>\<open>del\<close> is \<^const>\<open>AList.delete\<close>.
  \<^item> An exception is a value \<open>Inl e\<close> of a sum type; a normal return is \<open>Inr v\<close>.
\<close>

datatype error = KeyError | ValueError | TypeError | ZeroDivisionError

text \<open>The value stored under a weight key, seen through what \<^verbatim>\<open>float()\<close> does with it.\<close>

datatype valor =
    Numero rat      \<comment> \<open>an int, a float or a numeric string: \<^verbatim>\<open>float(v)\<close> is the number\<close>
  | Texto string    \<comment> \<open>a string that is no number: \<^verbatim>\<open>float(v)\<close> raises ValueError\<close>
  | Nulo            \<comment> \<open>None, a list or a dict: \<^verbatim>\<open>float(v)\<close> raises TypeError\<close>

fun py_float :: "valor \<Rightarrow> error + rat" where
  "py_float (Numero x) = Inr x"
| "py_float (Texto s) = Inl ValueError"
| "py_float Nulo = Inl TypeError"

definition py_div :: "rat \<Rightarrow> rat \<Rightarrow> error + rat" where
  "py_div a b = (if b = 0 then Inl ZeroDivisionError else Inr (a / b))"

text \<open>\<^verbatim>\<open>round(x, ndigits)\<close>: to the nearest multiple of \<open>10^-ndigits\<close>, a tie going to the
  even neighbour.\<close>

definition round_half_even :: "rat \<Rightarrow> int" where
  "round_half_even x =
     (let f = \<lfloor>x\<rfloor>; r = x - of_int f
      in if r < 1 / 2 then f
         else if 1 / 2 < r then f + 1
         else if even f then f else f + 1)"

definition py_round :: "rat \<Rightarrow> nat \<Rightarrow> rat" where
  "py_round x ndigits = of_int (round_half_even (x * 10 ^ ndigits)) / 10 ^ ndigits"

text \<open>\<^verbatim>\<open>sep.join(xs)\<close>.\<close>

fun join :: "string \<Rightarrow> string list \<Rightarrow> string" where
  "join sep [] = []"
| "join sep [x] = x"
| "join sep (x # y # ys) = x @ sep @ join sep (y # ys)"

section \<open>\<^verbatim>\<open>hashlib.md5(...).hexdigest()\<close>\<close>

text \<open>The MD5 message digest of RFC 1321 over 32-bit words; bytes are integers below 256.\<close>

type_synonym w32 = "32 word"

definition md5_s :: "nat list" where
  "md5_s = [7, 12, 17, 22, 7, 12, 17, 22, 7, 12, 17, 22, 7, 12, 17, 22,
            5, 9, 14, 20, 5, 9, 14, 20, 5, 9, 14, 20, 5, 9, 14, 20,
            4, 11, 16, 23, 4, 11, 16, 23, 4, 11, 16, 23, 4, 11, 16, 23,
            6, 10, 15, 21, 6, 10, 15, 21, 6, 10, 15, 21, 6, 10, 15, 21]"

definition md5_K :: "w32 list" where
  "md5_K = [0xd76aa478, 0xe8c7b756, 0x242070db, 0xc1bdceee,
            0xf57c0faf, 0x4787c62a, 0xa8304613, 0xfd469501,
            0x698098d8, 0x8b44f7af, 0xffff5bb1, 0x895cd7be,
            0x6b901122, 0xfd987193, 0xa679438e, 0x49b40821,
            0xf61e2562, 0xc040b340, 0x265e5a51, 0xe9b6c7aa,
            0xd62f105d, 0x02441453, 0xd8a1e681, 0xe7d3fbc8,
            0x21e1cde6, 0xc33707d6, 0xf4d50d87, 0x455a14ed,
            0xa9e3e905, 0xfcefa3f8, 0x676f02d9, 0x8d2a4c8a,
            0xfffa3942, 0x8771f681, 0x6d9d6122, 0xfde5380c,
            0xa4beea44, 0x4bdecfa9, 0xf6bb4b60, 0xbebfbc70,
            0x289b7ec6, 0xeaa127fa, 0xd4ef3085, 0x04881d05,
            0xd9d4d039, 0xe6db99e5, 0x1fa27cf8, 0xc4ac5665,
            0xf4292244, 0x432aff97, 0xab9423a7, 0xfc93a039,
            0x655b59c3, 0x8f0ccc92, 0xffeff47d, 0x85845dd1,
            0x6fa87e4f, 0xfe2ce6e0, 0xa3014314, 0x4e0811a1,
            0xf7537e82, 0xbd3af235, 0x2ad7d2bb, 0xeb86d391]"

fun le_bytes :: "nat \<Rightarrow> int \<Rightarrow> int list" where
  "le_bytes 0 v = []"
| "le_bytes (Suc k) v = (v mod 256) # le_bytes k (v div 256)"

definition md5_pad :: "int list \<Rightarrow> int list" where
  "md5_pad bs =
     (let n = length bs;
          z = (119 - n mod 64) mod 64
      in bs @ [128] @ replicate z 0 @ le_bytes 8 (8 * int n))"

fun le_word :: "int list \<Rightarrow> w32" where
  "le_word [] = 0"
| "le_word (b # bs) = word_of_int b + 256 * le_word bs"

fun chunks :: "nat \<Rightarrow> nat \<Rightarrow> 'a list \<Rightarrow> 'a list list" where
  "chunks 0 k xs = []"
| "chunks (Suc n) k xs = take k xs # chunks n k (drop k xs)"

definition md5_g :: "nat \<Rightarrow> nat" where
  "md5_g i = (if i < 16 then i
              else if i < 32 then (5 * i + 1) mod 16
              else if i < 48 then (3 * i + 5) mod 16
              else (7 * i) mod 16)"

definition md5_F :: "nat \<Rightarrow> w32 \<Rightarrow> w32 \<Rightarrow> w32 \<Rightarrow> w32" where
  "md5_F i b c d = (if i < 16 then (b AND c) OR (NOT b AND d)
                    else if i < 32 then (d AND b) OR (NOT d AND c)
                    else if i < 48 then b XOR c XOR d
                    else c XOR (b OR NOT d))"

definition md5_step :: "w32 list \<Rightarrow> w32 \<times> w32 \<times> w32 \<times> w32 \<Rightarrow> nat \<Rightarrow> w32 \<times> w32 \<times> w32 \<times> w32" where
  "md5_step m st i =
     (case st of (a, b, c, d) \<Rightarrow>
        let f = md5_F i b c d + a + md5_K ! i + m ! md5_g i
        in (d, b + word_rotl (md5_s ! i) f, b, c))"

definition md5_block :: "w32 \<times> w32 \<times> w32 \<times> w32 \<Rightarrow> int list \<Rightarrow> w32 \<times> w32 \<times> w32 \<times> w32" where
  "md5_block h blk =
     (case h of (a0, b0, c0, d0) \<Rightarrow>
        let m = map le_word (chunks 16 4 blk)
        in case foldl (md5_step m) h [0..<64] of
             (a, b, c, d) \<Rightarrow> (a0 + a, b0 + b, c0 + c, d0 + d))"

definition md5_digest :: "int list \<Rightarrow> int list" where
  "md5_digest bs =
     (let p = md5_pad bs
      in case foldl md5_block (0x67452301, 0xefcdab89, 0x98badcfe, 0x10325476)
                (chunks (length p div 64) 64 p) of
           (a, b, c, d) \<Rightarrow> concat (map (\<lambda>w. le_bytes 4 (uint w)) [a, b, c, d]))"

definition hex_digit :: "int \<Rightarrow> char" where
  "hex_digit n = ''0123456789abcdef'' ! nat n"

definition hexdigest :: "int list \<Rightarrow> string" where
  "hexdigest bs = concat (map (\<lambda>b. [hex_digit (b div 16), hex_digit (b mod 16)]) bs)"

definition md5_hexdigest :: "string \<Rightarrow> string" where
  "md5_hexdigest s = hexdigest (md5_digest (map of_char s))"

section \<open>The catalogue: \<^verbatim>\<open>models.Doenca\<close>\<close>

text \<open>
  An element of \<^verbatim>\<open>Doenca.sintomas\<close> comes straight from the JSON file: either a dict,
  of which the engine reads the keys \<^verbatim>\<open>"s"\<close> and \<^verbatim>\<open>"peso"\<close> (each possibly absent), or any
  other value, of which the engine takes \<^verbatim>\<open>str(...)\<close>.
\<close>

datatype sintoma =
    SintomaDict "string option" "valor option"
  | SintomaStr string

text \<open>\<^verbatim>\<open>Doenca.condicoes\<close>: a dict of which the engine reads two keys; \<open>None\<close> is an absent
  key.\<close>

record Condicoes =
  sintomas_obrigatorios :: "string list option"
  min_sintomas :: "int option"

record Doenca =
  nome :: string
  tipo :: string
  categoria :: string
  descricao :: string
  tratamento :: string
  severidade :: string
  sintomas :: "sintoma list"
  condicoes :: Condicoes

section \<open>\<^verbatim>\<open>config.CONFIG\<close>\<close>

record Config =
  LIMITE_RESULTADOS :: nat
  PORCENTAGEM_MINIMA :: rat
  CACHE_TTL :: rat
  CACHE_MAX_SIZE :: nat

definition CONFIG :: Config where
  "CONFIG = \<lparr>LIMITE_RESULTADOS = 50, PORCENTAGEM_MINIMA = 5, CACHE_TTL = 300, CACHE_MAX_SIZE = 1000\<rparr>"

section \<open>The scorer: \<^verbatim>\<open>engine.ResultadoDiagnostico\<close>\<close>

record ResultadoDiagnostico =
  doenca :: Doenca
  sintomas_selecionados :: "string list"
  sintomas_correspondentes :: "string list"
  sintomas_faltantes :: "string list"
  pontuacao_bruta :: rat
  pontuacao_maxima :: rat
  porcentagem :: rat

text \<open>One pass of the first loop of \<^verbatim>\<open>_calcular\<close>: the name and the weight of an entry.
  \<^verbatim>\<open>sintoma["s"]\<close> raises KeyError when the key is absent and is evaluated before the weight;
  an absent weight is \<open>1.0\<close>.\<close>

fun extrair_entrada :: "sintoma \<Rightarrow> error + string \<times> rat" where
  "extrair_entrada (SintomaDict None p) = Inl KeyError"
| "extrair_entrada (SintomaDict (Some n) None) = Inr (n, 1)"
| "extrair_entrada (SintomaDict (Some n) (Some v)) =
     (case py_float v of Inl e \<Rightarrow> Inl e | Inr w \<Rightarrow> Inr (n, w))"
| "extrair_entrada (SintomaStr n) = Inr (n, 1)"

text \<open>The first loop: it fills the dict \<^verbatim>\<open>sintomas_doenca\<close> and adds every weight to
  \<^verbatim>\<open>pontuacao_maxima\<close>.\<close>

fun extrair_sintomas ::
  "sintoma list \<Rightarrow> (string \<times> rat) list \<Rightarrow> ResultadoDiagnostico
     \<Rightarrow> error + (string \<times> rat) list \<times> ResultadoDiagnostico" where
  "extrair_sintomas [] sd r = Inr (sd, r)"
| "extrair_sintomas (s # ss) sd r =
     (case extrair_entrada s of
        Inl e \<Rightarrow> Inl e
      | Inr (n, peso) \<Rightarrow>
          extrair_sintomas ss (AList.update n peso sd)
            (r\<lparr>pontuacao_maxima := pontuacao_maxima r + peso\<rparr>))"

text \<open>The second loop, over \<^verbatim>\<open>sintomas_doenca.items()\<close>.\<close>

fun verificar_correspondencia ::
  "(string \<times> rat) list \<Rightarrow> ResultadoDiagnostico \<Rightarrow> ResultadoDiagnostico" where
  "verificar_correspondencia [] r = r"
| "verificar_correspondencia ((n, peso) # sd) r =
     verificar_correspondencia sd
       (if n \<in> set (sintomas_selecionados r)
        then r\<lparr>pontuacao_bruta := pontuacao_bruta r + peso,
               sintomas_correspondentes := sintomas_correspondentes r @ [n]\<rparr>
        else r\<lparr>sintomas_faltantes := sintomas_faltantes r @ [n]\<rparr>)"

definition calcular :: "ResultadoDiagnostico \<Rightarrow> error + ResultadoDiagnostico" where
  "calcular r =
     (case extrair_sintomas (sintomas (doenca r)) [] r of
        Inl e \<Rightarrow> Inl e
      | Inr (sd, r1) \<Rightarrow>
          let r2 = verificar_correspondencia sd r1
          in if 0 < pontuacao_maxima r2
             then (case py_div (pontuacao_bruta r2) (pontuacao_maxima r2) of
                     Inl e \<Rightarrow> Inl e
                   | Inr q \<Rightarrow> Inr (r2\<lparr>porcentagem := py_round (q * 100) 1\<rparr>))
             else Inr r2)"

text \<open>The constructor \<^verbatim>\<open>ResultadoDiagnostico(doenca, sintomas_selecionados)\<close>.\<close>

definition novo_resultado :: "Doenca \<Rightarrow> string list \<Rightarrow> error + ResultadoDiagnostico" where
  "novo_resultado d sel =
     calcular \<lparr>doenca = d, sintomas_selecionados = sel, sintomas_correspondentes = [],
               sintomas_faltantes = [], pontuacao_bruta = 0, pontuacao_maxima = 0,
               porcentagem = 0\<rparr>"

text \<open>The dict built by \<^verbatim>\<open>to_dict\<close>; its keys carry the prefix \<open>dic_\<close>.\<close>

record resultado_dict =
  dic_doenca :: string
  dic_tipo :: string
  dic_categoria :: string
  dic_descricao :: string
  dic_tratamento :: string
  dic_severidade :: string
  dic_porcentagem :: rat
  dic_sintomas_correspondentes :: "string list"
  dic_sintomas_faltantes :: "string list"
  dic_pontuacao_bruta :: rat
  dic_pontuacao_maxima :: rat

definition to_dict :: "ResultadoDiagnostico \<Rightarrow> resultado_dict" where
  "to_dict r =
     \<lparr>dic_doenca = nome (doenca r),
      dic_tipo = tipo (doenca r),
      dic_categoria = categoria (doenca r),
      dic_descricao = descricao (doenca r),
      dic_tratamento = tratamento (doenca r),
      dic_severidade = severidade (doenca r),
      dic_porcentagem = porcentagem r,
      dic_sintomas_correspondentes = sintomas_correspondentes r,
      dic_sintomas_faltantes = sintomas_faltantes r,
      dic_pontuacao_bruta = py_round (pontuacao_bruta r) 2,
      dic_pontuacao_maxima = py_round (pontuacao_maxima r) 2\<rparr>"

section \<open>The engine: \<^verbatim>\<open>engine.DiagnosticoEngine\<close>\<close>

text \<open>The list comprehension of \<^verbatim>\<open>_verificar_condicoes\<close>:
  \<^verbatim>\<open>[s["s"] if isinstance(s, dict) else str(s) for s in doenca.sintomas]\<close>.\<close>

fun nomes_sintomas :: "sintoma list \<Rightarrow> error + string list" where
  "nomes_sintomas [] = Inr []"
| "nomes_sintomas (SintomaDict None p # ss) = Inl KeyError"
| "nomes_sintomas (SintomaDict (Some n) p # ss) =
     (case nomes_sintomas ss of Inl e \<Rightarrow> Inl e | Inr ns \<Rightarrow> Inr (n # ns))"
| "nomes_sintomas (SintomaStr n # ss) =
     (case nomes_sintomas ss of Inl e \<Rightarrow> Inl e | Inr ns \<Rightarrow> Inr (n # ns))"

text \<open>\<^verbatim>\<open>condicoes.get("sintomas_obrigatorios", [])\<close> and \<^verbatim>\<open>condicoes.get("min_sintomas", 0)\<close>.\<close>

definition get_sintomas_obrigatorios :: "Condicoes \<Rightarrow> string list" where
  "get_sintomas_obrigatorios c = (case sintomas_obrigatorios c of None \<Rightarrow> [] | Some l \<Rightarrow> l)"

definition get_min_sintomas :: "Condicoes \<Rightarrow> int" where
  "get_min_sintomas c = (case min_sintomas c of None \<Rightarrow> 0 | Some m \<Rightarrow> m)"

definition verificar_condicoes :: "Doenca \<Rightarrow> string list \<Rightarrow> error + bool" where
  "verificar_condicoes d sints =
     (let obrigatorios = get_sintomas_obrigatorios (condicoes d);
          min_sints = get_min_sintomas (condicoes d)
      in if obrigatorios \<noteq> [] \<and> list_ex (\<lambda>obrig. obrig \<notin> set sints) obrigatorios
         then Inr False
         else if 0 < min_sints
         then (case nomes_sintomas (sintomas d) of
                 Inl e \<Rightarrow> Inl e
               | Inr sintomas_doenca \<Rightarrow>
                   let comuns = filter (\<lambda>s. s \<in> set sints) sintomas_doenca
                   in if int (length comuns) < min_sints then Inr False else Inr True)
         else Inr True)"

definition gerar_cache_key :: "string list \<Rightarrow> string" where
  "gerar_cache_key sints = md5_hexdigest (join '','' (sort sints))"

text \<open>The loop of \<^verbatim>\<open>avaliar\<close> over \<^verbatim>\<open>self.db.doencas\<close>; \<open>resultados\<close> is the list built so far.\<close>

fun avaliar_doencas ::
  "Config \<Rightarrow> Doenca list \<Rightarrow> string list \<Rightarrow> resultado_dict list \<Rightarrow> error + resultado_dict list" where
  "avaliar_doencas cfg [] sints resultados = Inr resultados"
| "avaliar_doencas cfg (d # ds) sints resultados =
     (case verificar_condicoes d sints of
        Inl e \<Rightarrow> Inl e
      | Inr False \<Rightarrow> avaliar_doencas cfg ds sints resultados
      | Inr True \<Rightarrow>
          (case novo_resultado d sints of
             Inl e \<Rightarrow> Inl e
           | Inr resultado \<Rightarrow>
               avaliar_doencas cfg ds sints
                 (if PORCENTAGEM_MINIMA cfg \<le> porcentagem resultado
                  then resultados @ [to_dict resultado] else resultados)))"

text \<open>
  \<^verbatim>\<open>avaliar(sintomas)\<close>. The engine's state is its dict \<^verbatim>\<open>self.cache\<close>; the catalogue
  \<^verbatim>\<open>self.db.doencas\<close> and \<^verbatim>\<open>CONFIG\<close> are read only. The call returns the result list and
  the cache after the call, or the exception that left the call (the cache is then as before).
  \<^verbatim>\<open>list.sort(key=..., reverse=True)\<close> is stable, as is \<^const>\<open>sort_key\<close> on the negated key.
\<close>

type_synonym engine_cache = "(string \<times> resultado_dict list) list"

definition avaliar ::
  "Config \<Rightarrow> Doenca list \<Rightarrow> engine_cache \<Rightarrow> string list
     \<Rightarrow> error + resultado_dict list \<times> engine_cache" where
  "avaliar cfg doencas cache sints =
     (if sints = [] then Inr ([], cache)
      else let cache_key = gerar_cache_key sints
           in case map_of cache cache_key of
                Some cached \<Rightarrow> Inr (cached, cache)
              | None \<Rightarrow>
                  (case avaliar_doencas cfg doencas sints [] of
                     Inl e \<Rightarrow> Inl e
                   | Inr resultados \<Rightarrow>
                       let ordenados = sort_key (\<lambda>x. - dic_porcentagem x) resultados;
                           limitados = take (LIMITE_RESULTADOS cfg) ordenados
                       in Inr (limitados, AList.update cache_key limitados cache)))"

definition clear_cache :: "engine_cache \<Rightarrow> engine_cache" where
  "clear_cache cache = []"

section \<open>The bounded cache of \<^verbatim>\<open>data_manager.DataManager\<close>\<close>








section \<open>Notions used in the statements\<close>

text \<open>An entry is well formed when the scorer can read it: a dict with a name whose
  weight, if present, is a number, or a plain value standing for its own name.\<close>

fun bem_formado :: "sintoma \<Rightarrow> bool" where
  "bem_formado (SintomaDict None p) = False"
| "bem_formado (SintomaDict (Some n) None) = True"
| "bem_formado (SintomaDict (Some n) (Some (Numero w))) = True"
| "bem_formado (SintomaDict (Some n) (Some v)) = False"
| "bem_formado (SintomaStr n) = True"

definition bem_formada :: "Doenca \<Rightarrow> bool" where
  "bem_formada d = list_all bem_formado (sintomas d)"

text \<open>Every entry is well formed and carries a weight above zero.\<close>

definition pesos_positivos :: "Doenca \<Rightarrow> bool" where
  "pesos_positivos d =
     list_all (\<lambda>s. case extrair_entrada s of Inl e \<Rightarrow> False | Inr (n, w) \<Rightarrow> 0 < w) (sintomas d)"

text \<open>The assignment \<^verbatim>\<open>sintomas_doenca[nome] = peso\<close>, and the dict the first loop of
  \<^verbatim>\<open>_calcular\<close> ends with when the entries read as the pairs \<open>ps\<close>.\<close>

definition atribuir :: "(string \<times> rat) list \<Rightarrow> string \<times> rat \<Rightarrow> (string \<times> rat) list" where
  "atribuir sd p = AList.update (fst p) (snd p) sd"

definition dicionario :: "(string \<times> rat) list \<Rightarrow> (string \<times> rat) list" where
  "dicionario ps = foldl atribuir [] ps"


text \<open>One pass of the loop of \<^verbatim>\<open>avaliar\<close>: the dict the entry adds to \<^verbatim>\<open>resultados\<close>, if any,
  and the exception the pass raises, if any.\<close>

definition candidato :: "Config \<Rightarrow> string list \<Rightarrow> Doenca \<Rightarrow> resultado_dict option" where
  "candidato cfg sints d =
     (case verificar_condicoes d sints of
        Inr True \<Rightarrow>
          (case novo_resultado d sints of
             Inr r \<Rightarrow> if PORCENTAGEM_MINIMA cfg \<le> porcentagem r then Some (to_dict r) else None
           | Inl e \<Rightarrow> None)
      | _ \<Rightarrow> None)"

definition excecao :: "string list \<Rightarrow> Doenca \<Rightarrow> error option" where
  "excecao sints d =
     (case verificar_condicoes d sints of
        Inl e \<Rightarrow> Some e
      | Inr False \<Rightarrow> None
      | Inr True \<Rightarrow> (case novo_resultado d sints of Inl e \<Rightarrow> Some e | Inr r \<Rightarrow> None))"


section \<open>Catalogue entries of the examples\<close>

definition flu :: Doenca where
  "flu = \<lparr>nome = ''Flu'', tipo = ''fisico'', categoria = ''fisica'', descricao = [],
          tratamento = [], severidade = ''moderada'',
          sintomas = [SintomaDict (Some ''fever'') (Some (Numero 1)),
                      SintomaDict (Some ''cough'') (Some (Numero 1)),
                      SintomaDict (Some ''fatigue'') (Some (Numero (1 / 2)))],
          condicoes = \<lparr>sintomas_obrigatorios = None, min_sintomas = None\<rparr>\<rparr>"


definition sem_sintomas :: Doenca where
  "sem_sintomas = \<lparr>nome = ''Vazia'', tipo = ''fisico'', categoria = ''fisica'', descricao = [],
          tratamento = [], severidade = ''moderada'', sintomas = [],
          condicoes = \<lparr>sintomas_obrigatorios = None, min_sintomas = None\<rparr>\<rparr>"

text \<open>One symptom \<open>a\<close>, and \<open>b\<close> required.\<close>

definition rare :: Doenca where
  "rare = \<lparr>nome = ''Rare'', tipo = ''fisico'', categoria = ''fisica'', descricao = [],
          tratamento = [], severidade = ''moderada'',
          sintomas = [SintomaDict (Some ''a'') (Some (Numero 1))],
          condicoes = \<lparr>sintomas_obrigatorios = Some [''b''], min_sintomas = None\<rparr>\<rparr>"

text \<open>An entry without weight, a plain string and a weighted entry; one own symptom required.\<close>

definition cold :: Doenca where
  "cold = \<lparr>nome = ''Cold'', tipo = ''fisico'', categoria = ''fisica'', descricao = [],
          tratamento = [], severidade = ''baixa'',
          sintomas = [SintomaDict (Some ''fever'') None, SintomaStr ''chills'',
                      SintomaDict (Some ''sneezing'') (Some (Numero (1 / 2)))],
          condicoes = \<lparr>sintomas_obrigatorios = Some [], min_sintomas = Some 1\<rparr>\<rparr>"

definition flu2 :: Doenca where
  "flu2 = flu\<lparr>nome := ''Flu2''\<rparr>"

text \<open>A symptom dict without the key \<^verbatim>\<open>"s"\<close>, and a weight that is no number.\<close>

definition sem_nome :: Doenca where
  "sem_nome = \<lparr>nome = ''SemNome'', tipo = ''fisico'', categoria = ''fisica'', descricao = [],
          tratamento = [], severidade = ''moderada'',
          sintomas = [SintomaDict None (Some (Numero 1))],
          condicoes = \<lparr>sintomas_obrigatorios = None, min_sintomas = None\<rparr>\<rparr>"

definition peso_invalido :: Doenca where
  "peso_invalido = \<lparr>nome = ''PesoInvalido'', tipo = ''fisico'', categoria = ''fisica'',
          descricao = [], tratamento = [], severidade = ''moderada'',
          sintomas = [SintomaDict (Some ''fever'') (Some (Texto ''alto''))],
          condicoes = \<lparr>sintomas_obrigatorios = None, min_sintomas = None\<rparr>\<rparr>"

text \<open>\<open>fever\<close> required, and one own symptom required.\<close>

definition febril :: Doenca where
  "febril = \<lparr>nome = ''Febril'', tipo = ''fisico'', categoria = ''fisica'', descricao = [],
          tratamento = [], severidade = ''moderada'',
          sintomas = [SintomaDict (Some ''fever'') (Some (Numero 1)),
                      SintomaDict (Some ''cough'') (Some (Numero 1))],
          condicoes = \<lparr>sintomas_obrigatorios = Some [''fever''], min_sintomas = Some 1\<rparr>\<rparr>"

section \<open>The scorer on well-formed entries\<close>

lemma bem_formado_entrada: "bem_formado s \<Longrightarrow> \<exists>p. extrair_entrada s = Inr p"
  by (induction s rule: bem_formado.induct) auto

lemma entrada_bem_formado: "extrair_entrada s = Inr p \<Longrightarrow> bem_formado s"
  by (induction s rule: bem_formado.induct) auto

lemma bem_formados_pares:
  "list_all bem_formado ss \<Longrightarrow> \<exists>ps. map extrair_entrada ss = map Inr ps"
proof (induction ss)
  case Nil
  then show ?case by simp
next
  case (Cons s ss)
  then obtain ps where ps: "map extrair_entrada ss = map Inr ps" by auto
  from Cons.prems have "bem_formado s" by simp
  then obtain p where "extrair_entrada s = Inr p"
    using bem_formado_entrada by blast
  with ps have "map extrair_entrada (s # ss) = map Inr (p # ps)" by simp
  then show ?case by blast
qed

lemma extrair_sintomas_pares:
  "map extrair_entrada ss = map Inr ps \<Longrightarrow>
   extrair_sintomas ss sd r =
     Inr (foldl atribuir sd ps,
          r\<lparr>pontuacao_maxima := pontuacao_maxima r + sum_list (map snd ps)\<rparr>)"
proof (induction ss arbitrary: ps sd r)
  case Nil
  then show ?case by simp
next
  case (Cons s ss)
  then obtain p ps' where ps: "ps = p # ps'" "extrair_entrada s = Inr p"
    "map extrair_entrada ss = map Inr ps'" by (cases ps) auto
  show ?case
    using Cons.IH [OF ps(3)] ps(1,2)
    by (cases p) (simp add: atribuir_def add.assoc)
qed

lemma vc_bruta:
  "pontuacao_bruta (verificar_correspondencia sd r) =
     pontuacao_bruta r + sum_list (map snd (filter (\<lambda>p. fst p \<in> set (sintomas_selecionados r)) sd))"
  by (induction sd r rule: verificar_correspondencia.induct) (auto simp: add.assoc)

lemma vc_correspondentes:
  "sintomas_correspondentes (verificar_correspondencia sd r) =
     sintomas_correspondentes r @ filter (\<lambda>n. n \<in> set (sintomas_selecionados r)) (map fst sd)"
  by (induction sd r rule: verificar_correspondencia.induct) auto

lemma vc_faltantes:
  "sintomas_faltantes (verificar_correspondencia sd r) =
     sintomas_faltantes r @ filter (\<lambda>n. n \<notin> set (sintomas_selecionados r)) (map fst sd)"
  by (induction sd r rule: verificar_correspondencia.induct) auto

lemma vc_outros:
  "pontuacao_maxima (verificar_correspondencia sd r) = pontuacao_maxima r"
  "doenca (verificar_correspondencia sd r) = doenca r"
  "sintomas_selecionados (verificar_correspondencia sd r) = sintomas_selecionados r"
  "porcentagem (verificar_correspondencia sd r) = porcentagem r"
  by (induction sd r rule: verificar_correspondencia.induct) auto

lemma update_novo: "n \<notin> fst ` set sd \<Longrightarrow> AList.update n w sd = sd @ [(n, w)]"
  by (induction sd) auto

lemma foldl_atribuir_distinct:
  "distinct (map fst (sd @ ps)) \<Longrightarrow> foldl atribuir sd ps = sd @ ps"
proof (induction ps arbitrary: sd)
  case Nil
  then show ?case by simp
next
  case (Cons p ps)
  have "fst p \<notin> fst ` set sd" using Cons.prems by auto
  then have "atribuir sd p = sd @ [p]" by (simp add: atribuir_def update_novo)
  moreover have "distinct (map fst ((sd @ [p]) @ ps))" using Cons.prems by simp
  ultimately show ?case using Cons.IH [of "sd @ [p]"] by simp
qed

subsection \<open>Rounding is monotone\<close>

lemma round_half_even_mono: "x \<le> y \<Longrightarrow> round_half_even x \<le> round_half_even y"
proof -
  assume xy: "x \<le> y"
  have fl: "\<lfloor>x\<rfloor> \<le> \<lfloor>y\<rfloor>" using xy by (rule floor_mono)
  show ?thesis
  proof (cases "\<lfloor>x\<rfloor> = \<lfloor>y\<rfloor>")
    case True
    then show ?thesis using xy by (auto simp: round_half_even_def Let_def)
  next
    case False
    then have "\<lfloor>x\<rfloor> + 1 \<le> \<lfloor>y\<rfloor>" using fl by linarith
    moreover have "round_half_even x \<le> \<lfloor>x\<rfloor> + 1" by (simp add: round_half_even_def Let_def)
    moreover have "\<lfloor>y\<rfloor> \<le> round_half_even y" by (simp add: round_half_even_def Let_def)
    ultimately show ?thesis by linarith
  qed
qed

lemma py_round_mono: "x \<le> y \<Longrightarrow> py_round x k \<le> py_round y k"
  unfolding py_round_def
  by (intro divide_right_mono round_half_even_mono mult_right_mono) (simp_all add: round_half_even_mono)

subsection \<open>The result of the constructor\<close>

lemma novo_resultado_pares:
  assumes "map extrair_entrada (sintomas d) = map Inr ps"
  shows "novo_resultado d q =
     Inr \<lparr>doenca = d, sintomas_selecionados = q,
          sintomas_correspondentes = filter (\<lambda>n. n \<in> set q) (map fst (dicionario ps)),
          sintomas_faltantes = filter (\<lambda>n. n \<notin> set q) (map fst (dicionario ps)),
          pontuacao_bruta = sum_list (map snd (filter (\<lambda>p. fst p \<in> set q) (dicionario ps))),
          pontuacao_maxima = sum_list (map snd ps),
          porcentagem =
            (if 0 < sum_list (map snd ps)
             then py_round (sum_list (map snd (filter (\<lambda>p. fst p \<in> set q) (dicionario ps)))
                              / sum_list (map snd ps) * 100) 1
             else 0)\<rparr>"
  unfolding novo_resultado_def calcular_def dicionario_def
  by (simp add: extrair_sintomas_pares [OF assms] Let_def py_div_def
        vc_bruta vc_correspondentes vc_faltantes vc_outros)

lemma dicionario_distinct: "distinct (map fst ps) \<Longrightarrow> dicionario ps = ps"
  using foldl_atribuir_distinct [of "[]" ps] by (simp add: dicionario_def)

section \<open>What the scorer computes\<close>





section \<open>No division by zero\<close>

lemma extrair_entrada_erro: "extrair_entrada s = Inl e \<Longrightarrow> e \<noteq> ZeroDivisionError"
  by (induction s rule: bem_formado.induct) auto

lemma extrair_sintomas_casos:
  "(\<exists>ps. map extrair_entrada ss = map Inr ps) \<or>
   (\<exists>e. extrair_sintomas ss sd r = Inl e \<and> e \<noteq> ZeroDivisionError)"
proof (induction ss arbitrary: sd r)
  case Nil
  then show ?case by simp
next
  case (Cons s ss)
  show ?case
  proof (cases "extrair_entrada s")
    case (Inl e)
    then show ?thesis using extrair_entrada_erro by auto
  next
    case (Inr p)
    obtain n w where p: "p = (n, w)" by (cases p)
    from Cons.IH [of "AList.update n w sd" "r\<lparr>pontuacao_maxima := pontuacao_maxima r + w\<rparr>"]
    show ?thesis
    proof
      assume "\<exists>ps. map extrair_entrada ss = map Inr ps"
      then obtain ps where "map extrair_entrada ss = map Inr ps" ..
      with Inr have "map extrair_entrada (s # ss) = map Inr (p # ps)" by simp
      then show ?thesis by blast
    next
      assume "\<exists>e. extrair_sintomas ss (AList.update n w sd)
                   (r\<lparr>pontuacao_maxima := pontuacao_maxima r + w\<rparr>) = Inl e
                 \<and> e \<noteq> ZeroDivisionError"
      with Inr p show ?thesis by simp
    qed
  qed
qed

lemma novo_resultado_casos:
  "(\<exists>ps. map extrair_entrada (sintomas d) = map Inr ps) \<or>
   (\<exists>e. novo_resultado d q = Inl e \<and> e \<noteq> ZeroDivisionError)"
proof -
  let ?r0 = "\<lparr>doenca = d, sintomas_selecionados = q, sintomas_correspondentes = [],
               sintomas_faltantes = [], pontuacao_bruta = 0, pontuacao_maxima = 0,
               porcentagem = 0\<rparr>"
  from extrair_sintomas_casos [of "sintomas d" "[]" ?r0]
  show ?thesis
    by (auto simp: novo_resultado_def calcular_def)
qed

lemma bem_formada_pares:
  "bem_formada d \<Longrightarrow> \<exists>ps. map extrair_entrada (sintomas d) = map Inr ps"
  by (simp add: bem_formada_def bem_formados_pares)



section \<open>The percentage is monotone in the query\<close>

lemma set_update_subset: "set (AList.update k v al) \<subseteq> insert (k, v) (set al)"
  by (induction al) auto

lemma set_foldl_atribuir: "set (foldl atribuir sd ps) \<subseteq> set sd \<union> set ps"
proof (induction ps arbitrary: sd)
  case Nil
  then show ?case by simp
next
  case (Cons p ps)
  have "set (atribuir sd p) \<subseteq> insert p (set sd)"
    using set_update_subset [of "fst p" "snd p" sd] by (simp add: atribuir_def)
  with Cons.IH [of "atribuir sd p"] show ?case by auto
qed

lemma set_dicionario: "set (dicionario ps) \<subseteq> set ps"
  using set_foldl_atribuir [of "[]" ps] by (simp add: dicionario_def)

lemma soma_filtrada_mono:
  fixes sd :: "(string \<times> rat) list"
  assumes "\<And>p. p \<in> set sd \<Longrightarrow> 0 \<le> snd p" and "\<And>p. P p \<Longrightarrow> Q p"
  shows "sum_list (map snd (filter P sd)) \<le> sum_list (map snd (filter Q sd))"
  using assms
proof (induction sd)
  case Nil
  then show ?case by simp
next
  case (Cons p sd)
  have ih: "sum_list (map snd (filter P sd)) \<le> sum_list (map snd (filter Q sd))"
    using Cons by simp
  have nn: "0 \<le> snd p" using Cons.prems(1) by simp
  show ?case using ih nn Cons.prems(2) [of p] by auto
qed

lemma pesos_positivos_pares:
  "pesos_positivos d \<Longrightarrow>
   \<exists>ps. map extrair_entrada (sintomas d) = map Inr ps \<and> (\<forall>p \<in> set ps. 0 < snd p)"
  unfolding pesos_positivos_def
proof (induction "sintomas d" arbitrary: d)
  case Nil
  then show ?case by simp
next
  case (Cons s ss)
  let ?d' = "d\<lparr>sintomas := ss\<rparr>"
  have ss: "ss = sintomas ?d'" by simp
  from Cons.prems Cons.hyps(2) [symmetric]
  have hd: "case extrair_entrada s of Inl e \<Rightarrow> False | Inr (n, w) \<Rightarrow> 0 < w"
    and tl: "list_all (\<lambda>s. case extrair_entrada s of Inl e \<Rightarrow> False | Inr (n, w) \<Rightarrow> 0 < w)
               (sintomas ?d')"
    by simp_all
  from Cons.hyps(1) [OF ss tl] obtain ps
    where ps: "map extrair_entrada ss = map Inr ps" "\<forall>p \<in> set ps. 0 < snd p" by auto
  from hd obtain n w where nw: "extrair_entrada s = Inr (n, w)" "0 < w"
    by (auto split: sum.splits)
  have "map extrair_entrada (sintomas d) = map Inr ((n, w) # ps)"
    using ps(1) nw(1) Cons.hyps(2) [symmetric] by simp
  moreover have "\<forall>p \<in> set ((n, w) # ps). 0 < snd p" using ps(2) nw(2) by simp
  ultimately show ?case by blast
qed

lemma porcentagem_mono:
  assumes ps: "map extrair_entrada (sintomas d) = map Inr ps"
    and pos: "\<forall>p \<in> set ps. 0 \<le> snd p"
    and sub: "set q \<subseteq> set q'"
    and r: "novo_resultado d q = Inr r" and r': "novo_resultado d q' = Inr r'"
  shows "porcentagem r \<le> porcentagem r'"
proof -
  let ?b = "\<lambda>q. sum_list (map snd (filter (\<lambda>p. fst p \<in> set q) (dicionario ps)))"
  let ?m = "sum_list (map snd ps)"
  have nn: "\<And>p. p \<in> set (dicionario ps) \<Longrightarrow> 0 \<le> snd p"
    using set_dicionario [of ps] pos by auto
  have b: "?b q \<le> ?b q'"
    by (rule soma_filtrada_mono) (use nn sub in auto)
  have pr: "porcentagem r = (if 0 < ?m then py_round (?b q / ?m * 100) 1 else 0)"
    using r unfolding novo_resultado_pares [OF ps] by auto
  have pr': "porcentagem r' = (if 0 < ?m then py_round (?b q' / ?m * 100) 1 else 0)"
    using r' unfolding novo_resultado_pares [OF ps] by auto
  show ?thesis
  proof (cases "0 < ?m")
    case True
    then have "?b q / ?m * 100 \<le> ?b q' / ?m * 100"
      using b by (simp add: divide_right_mono)
    then show ?thesis using True pr pr' by (simp add: py_round_mono)
  next
    case False
    then show ?thesis using pr pr' by simp
  qed
qed

text \<open>
  C8. For a catalogue entry whose weights are all above zero and for every query \<open>q\<close> and name
  \<open>n\<close>: the scorer returns a result on \<open>q\<close>, on \<open>q\<close> with \<open>n\<close> added and on \<open>q\<close> with \<open>n\<close> removed;
  adding \<open>n\<close> never lowers the percentage and removing \<open>n\<close> never raises it.
\<close>

theorem porcentagem_monotona:
  assumes "pesos_positivos d"
  shows "\<exists>r r_mais r_menos.
           novo_resultado d q = Inr r
         \<and> novo_resultado d (q @ [n]) = Inr r_mais
         \<and> novo_resultado d (removeAll n q) = Inr r_menos
         \<and> porcentagem r \<le> porcentagem r_mais
         \<and> porcentagem r_menos \<le> porcentagem r"
proof -
  from pesos_positivos_pares [OF assms] obtain ps
    where ps: "map extrair_entrada (sintomas d) = map Inr ps" and pos: "\<forall>p \<in> set ps. 0 < snd p"
    by blast
  have nn: "\<forall>p \<in> set ps. 0 \<le> snd p" using pos by (simp add: less_imp_le)
  obtain r where r: "novo_resultado d q = Inr r"
    using novo_resultado_pares [OF ps] by simp
  obtain r1 where r1: "novo_resultado d (q @ [n]) = Inr r1"
    using novo_resultado_pares [OF ps] by simp
  obtain r2 where r2: "novo_resultado d (removeAll n q) = Inr r2"
    using novo_resultado_pares [OF ps] by simp
  have "porcentagem r \<le> porcentagem r1"
    by (rule porcentagem_mono [OF ps nn _ r r1]) auto
  moreover have "porcentagem r2 \<le> porcentagem r"
    by (rule porcentagem_mono [OF ps nn _ r2 r]) auto
  ultimately show ?thesis using r r1 r2 by blast
qed

lemma py_round_0: "py_round 0 k = 0"
  by (simp add: py_round_def round_half_even_def)

lemma py_round_40: "py_round 40 (Suc 0) = 40"
  by code_simp

lemma py_round_80: "py_round 80 (Suc 0) = 80"
  by code_simp

theorem porcentagem_monotona_witness:
  "pesos_positivos flu
   \<and> (\<exists>r r_mais r_menos.
           novo_resultado flu [''fever''] = Inr r
         \<and> novo_resultado flu ([''fever''] @ [''cough'']) = Inr r_mais
         \<and> novo_resultado flu (removeAll ''fever'' [''fever'']) = Inr r_menos
         \<and> porcentagem r = 40 \<and> porcentagem r_mais = 80 \<and> porcentagem r_menos = 0
         \<and> porcentagem r \<le> porcentagem r_mais
         \<and> porcentagem r_menos \<le> porcentagem r)"
proof -
  have p: "pesos_positivos flu" by (simp add: pesos_positivos_def flu_def)
  have h: "map extrair_entrada (sintomas flu)
              = map Inr [(''fever'', 1), (''cough'', 1), (''fatigue'', 1 / 2)]"
    by (simp add: flu_def)
  have d: "dicionario [(''fever'', 1), (''cough'', 1), (''fatigue'', 1 / 2)]
             = [(''fever'', 1), (''cough'', 1), (''fatigue'', 1 / 2)]"
    by (simp add: dicionario_distinct)
  from porcentagem_monotona [OF p, of "[''fever'']" "''cough''"]
  show ?thesis
    by (simp add: p novo_resultado_pares [OF h] d py_round_0 py_round_40 py_round_80)
qed

section \<open>The loop over the catalogue\<close>


lemma avaliar_doencas_ok:
  "list_all (\<lambda>d. excecao sints d = None) ds \<Longrightarrow>
   avaliar_doencas cfg ds sints acc = Inr (acc @ List.map_filter (candidato cfg sints) ds)"
proof (induction ds arbitrary: acc)
  case Nil
  then show ?case by (simp add: List.map_filter_simps)
next
  case (Cons d ds)
  then have d: "excecao sints d = None" and ds: "list_all (\<lambda>d. excecao sints d = None) ds"
    by simp_all
  show ?case
    using d Cons.IH [OF ds]
    by (auto simp: excecao_def candidato_def List.map_filter_simps split: sum.splits bool.splits)
qed

lemma avaliar_doencas_erro:
  "list_all (\<lambda>d. excecao sints d = None) pre \<Longrightarrow> excecao sints d = Some e \<Longrightarrow>
   avaliar_doencas cfg (pre @ d # post) sints acc = Inl e"
proof (induction pre arbitrary: acc)
  case Nil
  then show ?case by (auto simp: excecao_def split: sum.splits bool.splits)
next
  case (Cons p pre)
  then have p: "excecao sints p = None" and pre: "list_all (\<lambda>d. excecao sints d = None) pre"
    by simp_all
  show ?case
    using p Cons.IH [OF pre Cons.prems(2)]
    by (auto simp: excecao_def split: sum.splits bool.splits)
qed


lemma nomes_sintomas_bem_formados:
  "list_all bem_formado ss \<Longrightarrow> \<exists>ns. nomes_sintomas ss = Inr ns"
  by (induction ss rule: nomes_sintomas.induct) auto

lemma bem_formada_sem_excecao: "bem_formada d \<Longrightarrow> excecao sints d = None"
proof -
  assume wf: "bem_formada d"
  then obtain ns where ns: "nomes_sintomas (sintomas d) = Inr ns"
    using nomes_sintomas_bem_formados by (auto simp: bem_formada_def)
  from wf obtain ps where ps: "map extrair_entrada (sintomas d) = map Inr ps"
    using bem_formada_pares by blast
  show ?thesis
    by (auto simp: excecao_def verificar_condicoes_def Let_def ns novo_resultado_pares [OF ps]
        split: sum.splits bool.splits)
qed

lemma novo_resultado_Inr_bem_formada:
  assumes "novo_resultado d q = Inr r" shows "bem_formada d"
proof -
  from novo_resultado_casos [of d q] assms obtain ps
    where ps: "map extrair_entrada (sintomas d) = map Inr ps" by auto
  have "list_all bem_formado ss" if "map extrair_entrada ss = map Inr ps" for ss ps
    using that
  proof (induction ss arbitrary: ps)
    case Nil
    then show ?case by simp
  next
    case (Cons s ss)
    then obtain p ps' where "ps = p # ps'" "extrair_entrada s = Inr p"
      "map extrair_entrada ss = map Inr ps'" by (cases ps) auto
    with Cons.IH show ?case by (auto intro: entrada_bem_formado)
  qed
  from this [OF ps] show ?thesis by (simp add: bem_formada_def)
qed




section \<open>Cache miss and cache hit\<close>

lemma avaliar_miss:
  assumes "sints \<noteq> []" and "map_of cache (gerar_cache_key sints) = None"
  shows "avaliar cfg doencas cache sints =
     (case avaliar_doencas cfg doencas sints [] of
        Inl e \<Rightarrow> Inl e
      | Inr resultados \<Rightarrow>
          Inr (take (LIMITE_RESULTADOS cfg) (sort_key (\<lambda>x. - dic_porcentagem x) resultados),
               AList.update (gerar_cache_key sints)
                 (take (LIMITE_RESULTADOS cfg) (sort_key (\<lambda>x. - dic_porcentagem x) resultados))
                 cache))"
  using assms by (simp add: avaliar_def Let_def split: sum.splits)

lemma avaliar_hit:
  assumes "sints \<noteq> []" and "map_of cache (gerar_cache_key sints) = Some cached"
  shows "avaliar cfg doencas cache sints = Inr (cached, cache)"
  using assms by (simp add: avaliar_def Let_def)



section \<open>Evaluating the examples\<close>

lemmas exemplos = flu_def flu2_def rare_def cold_def sem_nome_def peso_invalido_def sem_sintomas_def

lemmas avaliacao = avaliar_def Let_def verificar_condicoes_def get_sintomas_obrigatorios_def
  get_min_sintomas_def novo_resultado_def calcular_def py_div_def to_dict_def

lemma py_round_50: "py_round 50 (Suc 0) = 50"
  by code_simp


text \<open>The digest of \<open>abc\<close> given in RFC 1321, and the fingerprints of three queries.\<close>

lemma md5_abc: "md5_hexdigest ''abc'' = ''900150983cd24fb0d6963f7d28e17f72''"
  by code_simp

lemma chave_fever: "gerar_cache_key [''fever''] = ''6c1562051db6c994bf5b6db8afe5605e''"
  by code_simp

lemma chave_fever_fever:
  "gerar_cache_key [''fever'', ''fever''] = ''55a81f1bdfd1e3bcf0f19bff2e9dd8ad''"
  by code_simp


section \<open>Ranking on a cache miss\<close>



section \<open>Eligibility is a gate\<close>


lemma avaliar_total:
  assumes "list_all bem_formada doencas"
  shows "\<exists>res c. avaliar cfg doencas cache sints = Inr (res, c)"
proof (cases "sints = []")
  case True
  then show ?thesis by (simp add: avaliar_def)
next
  case ne: False
  show ?thesis
  proof (cases "map_of cache (gerar_cache_key sints)")
    case None
    have ok: "list_all (\<lambda>d. excecao sints d = None) doencas"
      using assms by (induction doencas) (simp_all add: bem_formada_sem_excecao)
    show ?thesis by (simp add: avaliar_miss [OF ne None] avaliar_doencas_ok [OF ok])
  next
    case (Some v)
    then show ?thesis using ne by (simp add: avaliar_hit)
  qed
qed



section \<open>A malformed entry\<close>

text \<open>
  C6 (as amended). Over a catalogue of well-formed entries \<^verbatim>\<open>avaliar\<close> returns a result.
  On a cache miss, when the scan reaches a malformed entry that the eligibility gate does not
  reject, after well-formed entries only, the exception of that entry leaves \<^verbatim>\<open>avaliar\<close>:
  the caller gets no result list, and nothing is stored in the cache.
\<close>

theorem excecao_propaga:
  "(list_all bem_formada doencas \<longrightarrow>
      (\<exists>res c. avaliar cfg doencas cache sints = Inr (res, c)))
   \<and> (sints \<noteq> [] \<and> map_of cache (gerar_cache_key sints) = None
        \<and> list_all bem_formada pre \<and> \<not> bem_formada d
        \<and> verificar_condicoes d sints \<noteq> Inr False \<longrightarrow>
      (\<exists>e. avaliar cfg (pre @ d # post) cache sints = Inl e))"
proof (intro conjI impI)
  assume "list_all bem_formada doencas"
  then show "\<exists>res c. avaliar cfg doencas cache sints = Inr (res, c)"
    by (rule avaliar_total)
next
  assume h: "sints \<noteq> [] \<and> map_of cache (gerar_cache_key sints) = None
        \<and> list_all bem_formada pre \<and> \<not> bem_formada d
        \<and> verificar_condicoes d sints \<noteq> Inr False"
  then have pre: "list_all (\<lambda>d. excecao sints d = None) pre"
    by (induction pre) (simp_all add: bem_formada_sem_excecao)
  have "\<exists>e. excecao sints d = Some e"
  proof (cases "verificar_condicoes d sints")
    case (Inl e)
    then show ?thesis by (simp add: excecao_def)
  next
    case (Inr b)
    with h have b: "b" by auto
    show ?thesis
    proof (cases "novo_resultado d sints")
      case (Inl e)
      with Inr b show ?thesis by (simp add: excecao_def)
    next
      case r: (Inr r)
      from novo_resultado_Inr_bem_formada [OF r] h show ?thesis by simp
    qed
  qed
  then obtain e where e: "excecao sints d = Some e" ..
  have "avaliar_doencas cfg (pre @ d # post) sints [] = Inl e"
    by (rule avaliar_doencas_erro [OF pre e])
  with h show "\<exists>e. avaliar cfg (pre @ d # post) cache sints = Inl e"
    by (simp add: avaliar_miss)
qed

theorem excecao_propaga_witness:
  "list_all bem_formada [flu]
   \<and> (\<exists>res c. avaliar CONFIG [flu] [] [''fever''] = Inr (res, c))
   \<and> [''fever''] \<noteq> []
   \<and> map_of ([] :: engine_cache) (gerar_cache_key [''fever'']) = None
   \<and> \<not> bem_formada peso_invalido
   \<and> verificar_condicoes peso_invalido [''fever''] \<noteq> Inr False
   \<and> avaliar CONFIG ([flu] @ peso_invalido # [flu2]) [] [''fever''] = Inl ValueError"
proof -
  have h1: "list_all bem_formada [flu]" by (simp add: bem_formada_def exemplos)
  have h2: "\<not> bem_formada peso_invalido" by (simp add: bem_formada_def exemplos)
  have h3: "verificar_condicoes peso_invalido [''fever''] \<noteq> Inr False"
    by (simp add: avaliacao exemplos)
  have h4: "avaliar CONFIG ([flu] @ peso_invalido # [flu2]) [] [''fever''] = Inl ValueError"
    by (simp add: avaliacao exemplos CONFIG_def py_round_40)
  from excecao_propaga [of "[flu]" CONFIG "[]" "[''fever'']" "[flu]" peso_invalido "[flu2]"]
    h1 h2 h3 h4
  show ?thesis by simp
qed

text \<open>
  The claim as first worded fails: the engine has no exception handler, so a catalogue whose
  first entry has a symptom dict without the key \<^verbatim>\<open>"s"\<close> makes \<^verbatim>\<open>avaliar\<close> raise KeyError, although
  the well-formed entry after it, alone, yields a result.
\<close>

theorem excecao_nao_absorvida_counterexample:
  "avaliar CONFIG [sem_nome, flu] [] [''fever''] = Inl KeyError
   \<and> bem_formada flu
   \<and> (\<exists>res c. avaliar CONFIG [flu] [] [''fever''] = Inr (res, c)
         \<and> map dic_doenca res = [''Flu''])"
  by (simp add: avaliacao exemplos CONFIG_def py_round_40 bem_formada_def)

section \<open>The fingerprint of a query\<close>

lemma sort_mset_eq:
  fixes a b :: "string list"
  assumes "mset a = mset b" shows "sort a = sort b"
  by (rule properties_for_sort) (simp_all add: assms)

text \<open>
  C2 (as amended). Two queries that are permutations of each other (the same names, each
  as many times) have the same fingerprint; so when \<^verbatim>\<open>avaliar\<close> returns on the first, the call
  on the second, made next, finds that entry, returns the same list and leaves the cache as
  it is.
\<close>

theorem chave_de_permutacoes:
  assumes "mset a = mset b"
  shows "gerar_cache_key a = gerar_cache_key b
       \<and> (\<forall>res c. avaliar cfg doencas cache a = Inr (res, c) \<longrightarrow>
             avaliar cfg doencas c b = Inr (res, c))"
proof (intro conjI allI impI)
  show k: "gerar_cache_key a = gerar_cache_key b"
    by (simp add: gerar_cache_key_def sort_mset_eq [OF assms])
  fix res c
  assume av: "avaliar cfg doencas cache a = Inr (res, c)"
  show "avaliar cfg doencas c b = Inr (res, c)"
  proof (cases "a = []")
    case True
    with assms have "b = []" by simp
    with True av show ?thesis by (simp add: avaliar_def)
  next
    case ne: False
    with assms have nb: "b \<noteq> []" by auto
    have "map_of c (gerar_cache_key a) = Some res"
    proof (cases "map_of cache (gerar_cache_key a)")
      case None
      from av show ?thesis unfolding avaliar_miss [OF ne None]
        by (auto split: sum.splits simp: update_conv')
    next
      case (Some v)
      with av ne show ?thesis by (simp add: avaliar_hit)
    qed
    then have "map_of c (gerar_cache_key b) = Some res" using k by simp
    from avaliar_hit [OF nb this] show ?thesis .
  qed
qed

theorem chave_de_permutacoes_witness:
  "mset [''fever'', ''cough''] = mset [''cough'', ''fever'']
   \<and> gerar_cache_key [''fever'', ''cough''] = gerar_cache_key [''cough'', ''fever'']
   \<and> (\<exists>res c. avaliar CONFIG [flu] [] [''fever'', ''cough''] = Inr (res, c)
         \<and> avaliar CONFIG [flu] c [''cough'', ''fever''] = Inr (res, c)
         \<and> map dic_porcentagem res = [80])"
proof -
  have h: "mset [''fever'', ''cough''] = mset [''cough'', ''fever'']" by simp
  note t = chave_de_permutacoes [OF h, of CONFIG "[flu]" "[]"]
  obtain res c where av: "avaliar CONFIG [flu] [] [''fever'', ''cough''] = Inr (res, c)"
    and p: "map dic_porcentagem res = [80]"
    by (simp add: avaliacao exemplos CONFIG_def py_round_80)
  from t have k: "gerar_cache_key [''fever'', ''cough''] = gerar_cache_key [''cough'', ''fever'']"
    by (rule conjunct1)
  from t av have av2: "avaliar CONFIG [flu] c [''cough'', ''fever''] = Inr (res, c)" by blast
  have "\<exists>res c. avaliar CONFIG [flu] [] [''fever'', ''cough''] = Inr (res, c)
         \<and> avaliar CONFIG [flu] c [''cough'', ''fever''] = Inr (res, c)
         \<and> map dic_porcentagem res = [80]"
    by (rule exI [of _ res], rule exI [of _ c]) (intro conjI av av2 p)
  with h k show ?thesis by (intro conjI)
qed

text \<open>
  The claim as first worded fails for duplicates: \<^verbatim>\<open>_gerar_cache_key\<close> sorts the list and joins
  it without removing repeated names, so \<open>[fever, fever]\<close> and \<open>[fever]\<close>, the same set, have
  different fingerprints, and the second call misses and adds a second entry.
\<close>

theorem chave_com_duplicados_counterexample:
  "set [''fever'', ''fever''] = set [''fever'']
   \<and> gerar_cache_key [''fever'', ''fever''] \<noteq> gerar_cache_key [''fever'']
   \<and> (\<exists>r1 c1 r2 c2.
         avaliar CONFIG [flu] [] [''fever'', ''fever''] = Inr (r1, c1)
       \<and> avaliar CONFIG [flu] c1 [''fever''] = Inr (r2, c2)
       \<and> map fst c1 = [gerar_cache_key [''fever'', ''fever'']]
       \<and> map fst c2 = [gerar_cache_key [''fever'', ''fever''], gerar_cache_key [''fever'']])"
  by (simp add: avaliacao exemplos CONFIG_def py_round_40 chave_fever chave_fever_fever)

section \<open>The two caches\<close>
















section \<open>Names are compared as they are\<close>

lemma nomes_sintomas_pares:
  "map extrair_entrada ss = map Inr ps \<Longrightarrow> nomes_sintomas ss = Inr (map fst ps)"
proof (induction ss arbitrary: ps rule: nomes_sintomas.induct)
  case 1
  then show ?case by simp
next
  case (2 p ss)
  then show ?case by (cases ps) auto
next
  case (3 n p ss)
  then obtain q ps' where ps: "ps = q # ps'" "extrair_entrada (SintomaDict (Some n) p) = Inr q"
    "map extrair_entrada ss = map Inr ps'" by (cases ps) auto
  have "fst q = n" using ps(2) by (cases p) (auto split: sum.splits)
  with 3(1) [OF ps(3)] ps(1) show ?case by simp
next
  case (4 n ss)
  then obtain q ps' where ps: "ps = q # ps'" "extrair_entrada (SintomaStr n) = Inr q"
    "map extrair_entrada ss = map Inr ps'" by (cases ps) auto
  have "fst q = n" using ps(2) by auto
  with 4(1) [OF ps(3)] ps(1) show ?case by simp
qed

lemma fst_update: "fst ` set (AList.update k v al) = insert k (fst ` set al)"
  by (induction al) auto

lemma nomes_foldl_atribuir:
  "fst ` set (foldl atribuir sd ps) = fst ` set sd \<union> fst ` set ps"
  by (induction ps arbitrary: sd) (auto simp: atribuir_def fst_update)

lemma nomes_dicionario: "fst ` set (dicionario ps) = fst ` set ps"
  using nomes_foldl_atribuir [of "[]" ps] by (simp add: dicionario_def)

lemma filter_cong_set:
  "(\<And>x. x \<in> set xs \<Longrightarrow> P x = Q x) \<Longrightarrow> filter P xs = filter Q xs"
  by (rule filter_cong) auto

text \<open>
  C10. Membership tests compare the strings as they are. Let \<open>v\<close> be a string that is not,
  character for character, a symptom name of the well-formed entry \<open>d\<close> (a name in another
  letter case, say). Adding \<open>v\<close> to a query changes nothing in the score: raw score,
  percentage, matched and missing lists stay as they are and \<open>v\<close> is not matched; every
  symptom name of \<open>d\<close> absent from the query is missing and not matched; the overlap counted
  for \<^verbatim>\<open>min_sintomas\<close> is unchanged; a required symptom absent from the query and other than \<open>v\<close>
  still makes the entry ineligible; and if \<open>v\<close> is not itself a required symptom, eligibility
  is unchanged.
\<close>

theorem correspondencia_exata:
  assumes wf: "bem_formada d" and ns: "nomes_sintomas (sintomas d) = Inr ns"
    and v: "v \<notin> set ns"
  shows "\<exists>r r'. novo_resultado d q = Inr r \<and> novo_resultado d (v # q) = Inr r'
           \<and> pontuacao_bruta r' = pontuacao_bruta r
           \<and> porcentagem r' = porcentagem r
           \<and> sintomas_correspondentes r' = sintomas_correspondentes r
           \<and> sintomas_faltantes r' = sintomas_faltantes r
           \<and> v \<notin> set (sintomas_correspondentes r')
           \<and> (\<forall>n \<in> set ns. n \<notin> set q \<longrightarrow>
                 n \<in> set (sintomas_faltantes r') \<and> n \<notin> set (sintomas_correspondentes r'))
           \<and> filter (\<lambda>s. s \<in> set (v # q)) ns = filter (\<lambda>s. s \<in> set q) ns
           \<and> (\<forall>n \<in> set (get_sintomas_obrigatorios (condicoes d)). n \<notin> set q \<and> n \<noteq> v \<longrightarrow>
                 verificar_condicoes d (v # q) = Inr False)
           \<and> (v \<notin> set (get_sintomas_obrigatorios (condicoes d)) \<longrightarrow>
                 verificar_condicoes d (v # q) = verificar_condicoes d q)"
proof -
  from wf obtain ps where ps: "map extrair_entrada (sintomas d) = map Inr ps"
    using bem_formada_pares by blast
  have nomes: "ns = map fst ps" using nomes_sintomas_pares [OF ps] ns by simp
  let ?sd = "dicionario ps"
  have sd: "fst ` set ?sd = set ns" using nomes_dicionario [of ps] nomes by simp
  have vsd: "\<And>p. p \<in> set ?sd \<Longrightarrow> fst p \<noteq> v" using sd v by force
  have vn: "\<And>n. n \<in> set (map fst ?sd) \<Longrightarrow> n \<noteq> v" using sd v by auto
  have fp: "filter (\<lambda>p. fst p \<in> set (v # q)) ?sd = filter (\<lambda>p. fst p \<in> set q) ?sd"
    by (rule filter_cong_set) (use vsd in auto)
  have fc: "filter (\<lambda>n. n \<in> set (v # q)) (map fst ?sd) = filter (\<lambda>n. n \<in> set q) (map fst ?sd)"
    by (rule filter_cong_set) (use vn in auto)
  have ff: "filter (\<lambda>n. n \<notin> set (v # q)) (map fst ?sd) = filter (\<lambda>n. n \<notin> set q) (map fst ?sd)"
    by (rule filter_cong_set) (use vn in auto)
  have fn: "filter (\<lambda>s. s \<in> set (v # q)) ns = filter (\<lambda>s. s \<in> set q) ns"
    by (rule filter_cong_set) (use v in auto)
  have falt: "\<forall>n \<in> set ns. n \<notin> set q \<longrightarrow>
      n \<in> set (filter (\<lambda>n. n \<notin> set q) (map fst ?sd))
      \<and> n \<notin> set (filter (\<lambda>n. n \<in> set q) (map fst ?sd))"
    using sd by auto
  have obr: "\<forall>n \<in> set (get_sintomas_obrigatorios (condicoes d)). n \<notin> set q \<and> n \<noteq> v \<longrightarrow>
                 verificar_condicoes d (v # q) = Inr False"
    by (auto simp: verificar_condicoes_def Let_def list_ex_iff)
  have le: "list_ex (\<lambda>obrig. obrig \<notin> set (v # q)) obs = list_ex (\<lambda>obrig. obrig \<notin> set q) obs"
    if "v \<notin> set obs" for obs
    using that by (induction obs) auto
  have ver: "v \<notin> set (get_sintomas_obrigatorios (condicoes d)) \<longrightarrow>
                 verificar_condicoes d (v # q) = verificar_condicoes d q"
    using le [of "get_sintomas_obrigatorios (condicoes d)"] fn
    by (simp add: verificar_condicoes_def Let_def ns del: set_simps)
  have vnot: "v \<notin> fst ` set ?sd" using sd v by simp
  show ?thesis
    unfolding novo_resultado_pares [OF ps]
    using fp fc ff fn falt obr ver vnot by (simp del: set_simps filter.simps)
qed

theorem correspondencia_exata_witness:
  "bem_formada febril
   \<and> nomes_sintomas (sintomas febril) = Inr [''fever'', ''cough'']
   \<and> ''Fever'' \<notin> set [''fever'', ''cough'']
   \<and> (\<exists>r. novo_resultado febril [''Fever'', ''cough''] = Inr r
         \<and> pontuacao_bruta r = 1 \<and> porcentagem r = 50
         \<and> sintomas_correspondentes r = [''cough'']
         \<and> sintomas_faltantes r = [''fever''])
   \<and> verificar_condicoes febril [''Fever'', ''cough''] = Inr False"
proof -
  have h1: "bem_formada febril" by (simp add: bem_formada_def febril_def)
  have h2: "nomes_sintomas (sintomas febril) = Inr [''fever'', ''cough'']"
    by (simp add: febril_def)
  have h3: "''Fever'' \<notin> set [''fever'', ''cough'']" by simp
  have h4: "\<exists>r. novo_resultado febril [''Fever'', ''cough''] = Inr r
         \<and> pontuacao_bruta r = 1 \<and> porcentagem r = 50
         \<and> sintomas_correspondentes r = [''cough'']
         \<and> sintomas_faltantes r = [''fever'']"
    by (simp add: avaliacao febril_def py_round_50)
  have h5: "verificar_condicoes febril [''Fever'', ''cough''] = Inr False"
    by (simp add: avaliacao febril_def)
  from correspondencia_exata [OF h1 h2 h3, of "[''cough'']"] h1 h2 h3 h4 h5
  show ?thesis by blast
qed

section \<open>The empty query\<close>

text \<open>
  C9. For the empty symptom list \<^verbatim>\<open>avaliar\<close> returns the empty list at once: whatever the
  catalogue holds (malformed records included, so it is not scanned) and whatever the
  cache holds, the result is \<open>[]\<close> and the cache after the call is the cache before it.
\<close>

theorem avaliar_vazio:
  "avaliar cfg doencas cache [] = Inr ([], cache)"
  by (simp add: avaliar_def)

end
